theory Spec2Isabelle
  imports Main "HOL-Library.Multiset"
begin

section \<open>JSON values as the handlers see them\<close>

text \<open>
  \<^verbatim>\<open>request.get_json()\<close> hands the handlers a Python value built from JSON: \<^verbatim>\<open>None\<close>,
  a bool, a number, a str, a list or a dict. Numbers are restricted to integers and
  strings to ASCII. A dict is an association list in insertion order; its keys are
  unique in Python, so looking up the first binding of a key is the dict lookup. The
  handlers are modelled from the value that \<^verbatim>\<open>get_json\<close> returned to them.
\<close>

datatype json =
    JNull
  | JBool bool
  | JInt int
  | JStr string
  | JArr "json list"
  | JObj "(string \<times> json) list"

text \<open>Python truthiness, as tested by \<^verbatim>\<open>if new_title:\<close> and \<^verbatim>\<open>if new_recipe:\<close>.\<close>

fun truthy :: "json \<Rightarrow> bool" where
  "truthy JNull = False"
| "truthy (JBool b) = b"
| "truthy (JInt n) = (n \<noteq> 0)"
| "truthy (JStr s) = (s \<noteq> [])"
| "truthy (JArr xs) = (xs \<noteq> [])"
| "truthy (JObj kvs) = (kvs \<noteq> [])"

text \<open>
  \<^verbatim>\<open>body.get(key, None)\<close>. Only a dict has a \<^verbatim>\<open>get\<close> method: on every other value the
  attribute access raises \<^verbatim>\<open>AttributeError\<close>, which is the result \<open>None\<close> here. On a
  dict the result is the value bound to the key, or Python's \<^verbatim>\<open>None\<close> (\<open>JNull\<close>).
\<close>

fun py_get :: "json \<Rightarrow> string \<Rightarrow> json option" where
  "py_get (JObj kvs) k = (case map_of kvs k of None \<Rightarrow> Some JNull | Some v \<Rightarrow> Some v)"
| "py_get _ k = None"

subsection \<open>Formatting with \<^verbatim>\<open>%s\<close>\<close>

function string_of_nat :: "nat \<Rightarrow> string" where
  "string_of_nat n =
     (if n < 10 then [char_of (48 + n)]
      else string_of_nat (n div 10) @ [char_of (48 + n mod 10)])"
  by pat_completeness auto
termination
  by (relation "measure (\<lambda>n. n)") auto

declare string_of_nat.simps [simp del]

definition string_of_int :: "int \<Rightarrow> string" where
  "string_of_int i = (if i < 0 then CHR ''-'' # string_of_nat (nat (- i)) else string_of_nat (nat i))"

definition hex_digit :: "nat \<Rightarrow> char" where
  "hex_digit n = (if n < 10 then char_of (48 + n) else char_of (87 + n))"

definition repr_char :: "char \<Rightarrow> char \<Rightarrow> string" where
  "repr_char q c =
     (if c = CHR 0x5C then [CHR 0x5C, CHR 0x5C]
      else if c = q then [CHR 0x5C, q]
      else if c = CHR 0x09 then [CHR 0x5C, CHR ''t'']
      else if c = CHR 0x0A then [CHR 0x5C, CHR ''n'']
      else if c = CHR 0x0D then [CHR 0x5C, CHR ''r'']
      else if (of_char c :: nat) < 32 \<or> (of_char c :: nat) = 127
        then [CHR 0x5C, CHR ''x'', hex_digit (of_char c div 16), hex_digit (of_char c mod 16)]
      else [c])"

text \<open>
  \<^verbatim>\<open>repr\<close> of a str: single quotes, unless the string holds a single quote and no
  double quote.
\<close>

definition repr_str :: "string \<Rightarrow> string" where
  "repr_str s =
     (let q = (if CHR 0x27 \<in> set s \<and> CHR 0x22 \<notin> set s then CHR 0x22 else CHR 0x27)
      in q # concat (map (repr_char q) s) @ [q])"

fun join :: "string \<Rightarrow> string list \<Rightarrow> string" where
  "join sep [] = []"
| "join sep [x] = x"
| "join sep (x # y # ys) = x @ sep @ join sep (y # ys)"

fun py_repr :: "json \<Rightarrow> string" where
  "py_repr JNull = ''None''"
| "py_repr (JBool b) = (if b then ''True'' else ''False'')"
| "py_repr (JInt n) = string_of_int n"
| "py_repr (JStr s) = repr_str s"
| "py_repr (JArr xs) = ''['' @ join '', '' (map py_repr xs) @ '']''"
| "py_repr (JObj kvs) =
     ''{'' @ join '', '' (map (\<lambda>(k, v). repr_str k @ '': '' @ py_repr v) kvs) @ ''}''"

text \<open>\<^verbatim>\<open>"%s" % v\<close> is \<^verbatim>\<open>str(v)\<close>: a str is printed as it is, every other value as its \<^verbatim>\<open>repr\<close>.\<close>

fun py_str :: "json \<Rightarrow> string" where
  "py_str (JStr s) = s"
| "py_str v = py_repr v"

section \<open>The drink table\<close>

text \<open>
  The \<^verbatim>\<open>recipe\<close> column holds the text that \<^verbatim>\<open>json.dumps\<close> produced. The codec is
  Python's standard library; a text is modelled by the document it encodes, so that
  \<^verbatim>\<open>json.loads\<close> of a dumped document gives the document back.
\<close>

datatype json_text = Dumps json

definition json_dumps :: "json \<Rightarrow> json_text" where
  "json_dumps v = Dumps v"

fun json_loads :: "json_text \<Rightarrow> json" where
  "json_loads (Dumps v) = v"

text \<open>
  A \<^verbatim>\<open>Drink\<close> object. The attribute \<open>title\<close> holds whatever Python value the handler
  assigned; the rows of the table are the objects that a commit accepted.
\<close>

record drink =
  id_pk :: int
  title :: json
  recipe :: json_text

type_synonym store = "drink list"

fun is_str :: "json \<Rightarrow> bool" where
  "is_str (JStr s) = True"
| "is_str _ = False"

text \<open>
  Modelled from the spec: the class \<^verbatim>\<open>Drink\<close> of \<^verbatim>\<open>database/models.py\<close> with its methods
  \<^verbatim>\<open>insert\<close>, \<^verbatim>\<open>update\<close>, \<^verbatim>\<open>delete\<close>, \<^verbatim>\<open>short\<close> and \<^verbatim>\<open>long\<close>. The spec gives a drink an
  integer primary key assigned by the server, a title that is a string, required and
  unique, and a recipe stored as serialized text. A commit that would break one of these
  raises, which is the result \<open>None\<close>, and leaves the table as it was. The key of a new
  row is one more than the largest key in the table.
\<close>

definition next_id :: "store \<Rightarrow> int" where
  "next_id s = fold max (map id_pk s) 0 + 1"

definition Drink_insert :: "json \<Rightarrow> json_text \<Rightarrow> store \<Rightarrow> (drink \<times> store) option" where
  "Drink_insert t r s =
     (if is_str t \<and> t \<notin> set (map title s)
      then (let d = \<lparr>id_pk = next_id s, title = t, recipe = r\<rparr> in Some (d, s @ [d]))
      else None)"

definition Drink_update :: "drink \<Rightarrow> store \<Rightarrow> store option" where
  "Drink_update d s =
     (if is_str (title d) \<and> title d \<notin> set (map title (filter (\<lambda>r. id_pk r \<noteq> id_pk d) s))
      then Some (map (\<lambda>r. if id_pk r = id_pk d then d else r) s)
      else None)"

definition Drink_delete :: "drink \<Rightarrow> store \<Rightarrow> store option" where
  "Drink_delete d s = Some (filter (\<lambda>r. id_pk r \<noteq> id_pk d) s)"

text \<open>
  Modelled from the spec: the long view is id, title and the full recipe; the short view
  is id, title and the recipe with only \<^verbatim>\<open>color\<close> and \<^verbatim>\<open>parts\<close> of each ingredient. The
  short view of a recipe that is not a list of entries with these two fields raises.
\<close>

definition long :: "drink \<Rightarrow> json" where
  "long d = JObj [(''id'', JInt (id_pk d)), (''title'', title d),
                  (''recipe'', json_loads (recipe d))]"

fun short_entry :: "json \<Rightarrow> json option" where
  "short_entry (JObj kvs) =
     (case map_of kvs ''color'' of
        None \<Rightarrow> None
      | Some c \<Rightarrow>
          (case map_of kvs ''parts'' of
             None \<Rightarrow> None
           | Some p \<Rightarrow> Some (JObj [(''color'', c), (''parts'', p)])))"
| "short_entry _ = None"

definition short :: "drink \<Rightarrow> json option" where
  "short d =
     (case json_loads (recipe d) of
        JArr rs \<Rightarrow>
          (case those (map short_entry rs) of
             None \<Rightarrow> None
           | Some short_recipe \<Rightarrow>
               Some (JObj [(''id'', JInt (id_pk d)), (''title'', title d),
                           (''recipe'', JArr short_recipe)]))
      | _ \<Rightarrow> None)"

text \<open>
  The two queries of the handlers: \<^verbatim>\<open>Drink.query.order_by(Drink.id).all()\<close> and
  \<^verbatim>\<open>Drink.query.filter(Drink.id == drink_id).one_or_none()\<close>. \<open>filter_id\<close> is the rows
  that the condition \<^verbatim>\<open>Drink.id == drink_id\<close> selects. The query itself raises (the outer
  \<open>None\<close>) in two cases. The URL converter \<^verbatim>\<open><int:drink_id>\<close> puts no bound on the id, and
  the database holds integers in 64 bits, signed: for an id outside that range the driver
  cannot bind the parameter of the query and raises. And \<^verbatim>\<open>one_or_none\<close> raises when more
  than one row matches.
\<close>

definition order_by_id_all :: "store \<Rightarrow> drink list" where
  "order_by_id_all s = sort_key id_pk s"

fun one_or_none :: "drink list \<Rightarrow> drink option option" where
  "one_or_none [] = Some None"
| "one_or_none [d] = Some (Some d)"
| "one_or_none (d # e # ds) = None"

definition filter_id :: "int \<Rightarrow> store \<Rightarrow> drink list" where
  "filter_id drink_id s = filter (\<lambda>d. id_pk d = drink_id) s"

definition fits_int64 :: "int \<Rightarrow> bool" where
  "fits_int64 i \<longleftrightarrow> - (2 ^ 63) \<le> i \<and> i < 2 ^ 63"

definition query_one_or_none :: "int \<Rightarrow> store \<Rightarrow> drink option option" where
  "query_one_or_none drink_id s =
     (if fits_int64 drink_id then one_or_none (filter_id drink_id s) else None)"

section \<open>Request handlers\<close>

text \<open>
  A handler returns the JSON it passes to \<^verbatim>\<open>jsonify\<close>, or leaves by an exception:
  \<^verbatim>\<open>abort(code)\<close> (with the description given to it, if any), an \<^verbatim>\<open>AuthError\<close> carrying
  its \<^verbatim>\<open>error\<close> and \<^verbatim>\<open>status_code\<close>, or any other Python exception.
\<close>

datatype failure =
    Abort nat "json option"
  | AuthError json nat
  | Unhandled

definition retrieve_drinks :: "store \<Rightarrow> failure + json" where
  "retrieve_drinks s =
     (let all_drinks = order_by_id_all s in
      if length all_drinks = 0 then Inl (Abort 404 None)
      else (case those (map short all_drinks) of
              None \<Rightarrow> Inl Unhandled
            | Some formatted_drinks \<Rightarrow>
                Inr (JObj [(''success'', JBool True), (''drinks'', JArr formatted_drinks)])))"

definition get_drinks_detail :: "json \<Rightarrow> store \<Rightarrow> failure + json" where
  "get_drinks_detail jwt_payload s =
     (let all_drinks = order_by_id_all s in
      if length all_drinks = 0 then Inl (Abort 404 None)
      else (let formatted_drinks = map long all_drinks in
            Inr (JObj [(''success'', JBool True), (''drinks'', JArr formatted_drinks)])))"

text \<open>
  \<^verbatim>\<open>create_drink\<close> reads the body before its \<^verbatim>\<open>try\<close>: an \<^verbatim>\<open>AttributeError\<close> of
  \<^verbatim>\<open>body.get\<close> leaves the handler. Only the construction, the insert and the response
  are inside the \<^verbatim>\<open>try\<close>, whose bare \<^verbatim>\<open>except\<close> aborts with 422.
\<close>

definition create_drink :: "json \<Rightarrow> json \<Rightarrow> store \<Rightarrow> (failure + json) \<times> store" where
  "create_drink jwt_payload body s =
     (case py_get body ''title'' of
        None \<Rightarrow> (Inl Unhandled, s)
      | Some new_title \<Rightarrow>
          (case py_get body ''recipe'' of
             None \<Rightarrow> (Inl Unhandled, s)
           | Some r \<Rightarrow>
               (let new_recipe = json_dumps r in
                case Drink_insert new_title new_recipe s of
                  None \<Rightarrow> (Inl (Abort 422 None), s)
                | Some (drink, s') \<Rightarrow>
                    (Inr (JObj [(''success'', JBool True), (''drinks'', JArr [long drink])]),
                     s'))))"

text \<open>
  \<^verbatim>\<open>modify_drink\<close> and \<^verbatim>\<open>delete_drink\<close> run wholly inside a \<^verbatim>\<open>try\<close>, the query
  included. The bare \<^verbatim>\<open>except\<close> aborts with 404 when the flag \<^verbatim>\<open>not_found\<close> was set and
  with 422 otherwise, so a query that raises is answered with 422.
\<close>

definition modify_drink :: "json \<Rightarrow> int \<Rightarrow> json \<Rightarrow> store \<Rightarrow> (failure + json) \<times> store" where
  "modify_drink jwt_payload drink_id body s =
     (case query_one_or_none drink_id s of
        None \<Rightarrow> (Inl (Abort 422 None), s)
      | Some None \<Rightarrow> (Inl (Abort 404 None), s)
      | Some (Some drink_obj) \<Rightarrow>
          (case py_get body ''title'' of
             None \<Rightarrow> (Inl (Abort 422 None), s)
           | Some new_title \<Rightarrow>
               (case py_get body ''recipe'' of
                  None \<Rightarrow> (Inl (Abort 422 None), s)
                | Some new_recipe \<Rightarrow>
                    (let drink_obj1 = (if truthy new_title
                                       then drink_obj\<lparr>title := new_title\<rparr> else drink_obj);
                         drink_obj2 = (if truthy new_recipe
                                       then drink_obj1\<lparr>recipe := json_dumps new_recipe\<rparr>
                                       else drink_obj1)
                     in case Drink_update drink_obj2 s of
                          None \<Rightarrow> (Inl (Abort 422 None), s)
                        | Some s' \<Rightarrow>
                            (Inr (JObj [(''success'', JBool True),
                                        (''drinks'', JArr [long drink_obj2])]), s')))))"

definition delete_drink :: "json \<Rightarrow> int \<Rightarrow> store \<Rightarrow> (failure + json) \<times> store" where
  "delete_drink jwt_payload drink_id s =
     (case query_one_or_none drink_id s of
        None \<Rightarrow> (Inl (Abort 422 None), s)
      | Some None \<Rightarrow> (Inl (Abort 404 None), s)
      | Some (Some drink_obj) \<Rightarrow>
          (case Drink_delete drink_obj s of
             None \<Rightarrow> (Inl (Abort 422 None), s)
           | Some s' \<Rightarrow>
               (Inr (JObj [(''success'', JBool True), (''delete'', JInt drink_id)]), s')))"

section \<open>Error handlers\<close>

record response =
  status_code :: nat
  content :: json

definition envelope :: "nat \<Rightarrow> string \<Rightarrow> json" where
  "envelope code message =
     JObj [(''success'', JBool False), (''error'', JInt (int code)), (''message'', JStr message)]"

text \<open>
  The argument of a status handler is \<^verbatim>\<open>error.description\<close>: the value given to \<^verbatim>\<open>abort\<close>,
  or \<open>None\<close> for the framework's own description, which is a str. \<open>code_description\<close> is
  the test \<^verbatim>\<open>isinstance(error.description, dict) and 'code' in error.description and
  'description' in error.description\<close> together with the two values it guards.
\<close>

fun code_description :: "json option \<Rightarrow> (json \<times> json) option" where
  "code_description (Some (JObj kvs)) =
     (case map_of kvs ''code'' of
        None \<Rightarrow> None
      | Some c \<Rightarrow> (case map_of kvs ''description'' of None \<Rightarrow> None | Some d \<Rightarrow> Some (c, d)))"
| "code_description _ = None"

definition not_found :: "json option \<Rightarrow> response" where
  "not_found description = \<lparr>status_code = 404, content = envelope 404 ''resource not found''\<rparr>"

definition unprocessable :: "json option \<Rightarrow> response" where
  "unprocessable description = \<lparr>status_code = 422, content = envelope 422 ''unprocessable''\<rparr>"

text \<open>The handler of 405 is a second function named \<^verbatim>\<open>not_found\<close> in the source.\<close>

definition not_found_405 :: "json option \<Rightarrow> response" where
  "not_found_405 description = \<lparr>status_code = 405, content = envelope 405 ''method not allowed''\<rparr>"

definition internal_server_error :: "json option \<Rightarrow> response" where
  "internal_server_error description =
     \<lparr>status_code = 500, content = envelope 500 ''Internal server error''\<rparr>"

definition bad_request :: "json option \<Rightarrow> response" where
  "bad_request description =
     (case code_description description of
        Some (c, d) \<Rightarrow> \<lparr>status_code = 400, content = envelope 400 (py_str c @ '' : '' @ py_str d)\<rparr>
      | None \<Rightarrow> \<lparr>status_code = 400, content = envelope 400 ''bad request''\<rparr>)"

definition unauthorized :: "json option \<Rightarrow> response" where
  "unauthorized description =
     (case code_description description of
        Some (c, d) \<Rightarrow> \<lparr>status_code = 401, content = envelope 401 (py_str c @ '' : '' @ py_str d)\<rparr>
      | None \<Rightarrow> \<lparr>status_code = 401, content = envelope 401 ''Unauthorized''\<rparr>)"

definition forbidden :: "json option \<Rightarrow> response" where
  "forbidden description =
     (case code_description description of
        Some (c, d) \<Rightarrow> \<lparr>status_code = 403, content = envelope 403 (py_str c @ '' : '' @ py_str d)\<rparr>
      | None \<Rightarrow> \<lparr>status_code = 403, content = envelope 403 ''Forbidden''\<rparr>)"

definition handle_auth_error :: "json \<Rightarrow> nat \<Rightarrow> response" where
  "handle_auth_error ex_error ex_status_code = \<lparr>status_code = ex_status_code, content = ex_error\<rparr>"

text \<open>
  The registry that the decorators \<^verbatim>\<open>@app.errorhandler\<close> fill, and the framework's use of
  it: an abort goes to the handler of its code, an \<^verbatim>\<open>AuthError\<close> to \<open>handle_auth_error\<close>,
  any other exception to the handler of 500. A code without a handler gets the
  framework's own page, which is the result \<open>None\<close>.
\<close>

definition errorhandler :: "nat \<Rightarrow> (json option \<Rightarrow> response) option" where
  "errorhandler code =
     (if code = 404 then Some not_found
      else if code = 422 then Some unprocessable
      else if code = 405 then Some not_found_405
      else if code = 500 then Some internal_server_error
      else if code = 400 then Some bad_request
      else if code = 401 then Some unauthorized
      else if code = 403 then Some forbidden
      else None)"

fun handle_failure :: "failure \<Rightarrow> response option" where
  "handle_failure (Abort code description) =
     (case errorhandler code of None \<Rightarrow> None | Some h \<Rightarrow> Some (h description))"
| "handle_failure (AuthError ex_error ex_status_code) =
     Some (handle_auth_error ex_error ex_status_code)"
| "handle_failure Unhandled = Some (internal_server_error None)"

fun respond :: "failure + json \<Rightarrow> response option" where
  "respond (Inr b) = Some \<lparr>status_code = 200, content = b\<rparr>"
| "respond (Inl f) = handle_failure f"

section \<open>Routes\<close>

text \<open>
  A request that reached its handler: the permission gate \<^verbatim>\<open>requires_auth\<close> of
  \<^verbatim>\<open>auth/auth.py\<close> has verified the token and passes the decoded claim set
  \<open>jwt_payload\<close> to the handler. \<^verbatim>\<open>GET /drinks\<close> has no gate.
\<close>

datatype request =
    GET_drinks
  | GET_drinks_detail json
  | POST_drinks json json
  | PATCH_drinks json int json
  | DELETE_drinks json int

fun route :: "request \<Rightarrow> store \<Rightarrow> (failure + json) \<times> store" where
  "route GET_drinks s = (retrieve_drinks s, s)"
| "route (GET_drinks_detail jwt_payload) s = (get_drinks_detail jwt_payload s, s)"
| "route (POST_drinks jwt_payload body) s = create_drink jwt_payload body s"
| "route (PATCH_drinks jwt_payload drink_id body) s = modify_drink jwt_payload drink_id body s"
| "route (DELETE_drinks jwt_payload drink_id) s = delete_drink jwt_payload drink_id s"

section \<open>Reading a table and a response\<close>

text \<open>
  The table's constraints: the primary key and the title are unique, and every title is
  a string.
\<close>

definition wf_store :: "store \<Rightarrow> bool" where
  "wf_store s \<longleftrightarrow>
     distinct (map id_pk s) \<and> distinct (map title s) \<and> list_all (\<lambda>d. is_str (title d)) s"

text \<open>
  What a client reads off a response body: the array under \<^verbatim>\<open>drinks\<close>, and the \<^verbatim>\<open>id\<close>
  and \<^verbatim>\<open>recipe\<close> of one of its entries.
\<close>

definition drinks_of :: "json \<Rightarrow> json list" where
  "drinks_of b = (case py_get b ''drinks'' of Some (JArr ds) \<Rightarrow> ds | _ \<Rightarrow> [])"

definition id_of :: "json \<Rightarrow> int" where
  "id_of e = (case py_get e ''id'' of Some (JInt i) \<Rightarrow> i | _ \<Rightarrow> 0)"

definition recipe_of :: "json \<Rightarrow> json" where
  "recipe_of e = (case py_get e ''recipe'' of Some r \<Rightarrow> r | None \<Rightarrow> JNull)"

definition ok_drinks :: "json list \<Rightarrow> json" where
  "ok_drinks ds = JObj [(''success'', JBool True), (''drinks'', JArr ds)]"

text \<open>
  The example of the spec: the drink that
  \<^verbatim>\<open>POST {"title":"Water","recipe":[{"name":"water","color":"blue","parts":1}]}\<close>
  creates in an empty table, and a second drink beside it.
\<close>

definition water_recipe :: json where
  "water_recipe =
     JArr [JObj [(''name'', JStr ''water''), (''color'', JStr ''blue''), (''parts'', JInt 1)]]"

definition water_body :: json where
  "water_body = JObj [(''title'', JStr ''Water''), (''recipe'', water_recipe)]"

definition water :: drink where
  "water = \<lparr>id_pk = 1, title = JStr ''Water'', recipe = Dumps water_recipe\<rparr>"


definition mocha :: drink where
  "mocha = \<lparr>id_pk = 2, title = JStr ''Mocha'',
             recipe = Dumps (JArr [JObj [(''name'', JStr ''milk''), (''color'', JStr ''grey''),
                                         (''parts'', JInt 3)]])\<rparr>"

section \<open>Auxiliary facts\<close>

lemma those_map_eq:
  "those (map f xs) = Some ys \<Longrightarrow> map f xs = map Some ys"
  by (induction xs arbitrary: ys) (auto split: option.splits)


lemma fold_max_ge_init: "(a::int) \<le> fold max xs a"
  by (induction xs arbitrary: a) (auto intro: order_trans [OF max.cobounded2])

lemma fold_max_ge: "x \<in> set xs \<Longrightarrow> (x::int) \<le> fold max xs a"
proof (induction xs arbitrary: a)
  case Nil
  then show ?case by simp
next
  case (Cons y ys)
  show ?case
  proof (cases "x = y")
    case True
    have "max y a \<le> fold max ys (max y a)" by (rule fold_max_ge_init)
    with True show ?thesis by simp
  next
    case False
    with Cons show ?thesis by simp
  qed
qed

lemma next_id_fresh: "d \<in> set s \<Longrightarrow> id_pk d < next_id s"
  using fold_max_ge [of "id_pk d" "map id_pk s" 0] by (simp add: next_id_def)


lemma filter_id_present:
  "distinct (map id_pk s) \<Longrightarrow> d \<in> set s \<Longrightarrow> filter_id (id_pk d) s = [d]"
proof (induction s)
  case Nil
  then show ?case by simp
next
  case (Cons x s)
  then show ?case
    by (auto simp: filter_id_def filter_empty_conv image_iff)
qed

lemma drinks_of_ok [simp]: "drinks_of (ok_drinks ds) = ds"
  by (simp add: drinks_of_def ok_drinks_def)

lemma id_of_long [simp]: "id_of (long d) = id_pk d"
  by (simp add: id_of_def long_def)

lemma recipe_of_long [simp]: "recipe_of (long d) = json_loads (recipe d)"
  by (simp add: recipe_of_def long_def)


lemma respond_404:
  "respond (Inl (Abort 404 None)) =
     Some \<lparr>status_code = 404, content = envelope 404 ''resource not found''\<rparr>"
  by (simp add: errorhandler_def not_found_def)

lemma sort_key_Nil_iff [simp]: "sort_key f xs = [] \<longleftrightarrow> xs = []"
  by (metis length_sort length_0_conv)

lemma retrieve_drinks_Inr:
  "retrieve_drinks s = Inr b \<Longrightarrow>
     s \<noteq> [] \<and> (\<exists>ds. b = ok_drinks ds \<and> map Some ds = map short (sort_key id_pk s))"
  by (auto simp: retrieve_drinks_def order_by_id_all_def ok_drinks_def Let_def
      dest: those_map_eq split: if_splits option.splits)

lemma get_drinks_detail_eq:
  "get_drinks_detail jwt_payload s =
     (if s = [] then Inl (Abort 404 None) else Inr (ok_drinks (map long (sort_key id_pk s))))"
  by (simp add: get_drinks_detail_def order_by_id_all_def ok_drinks_def Let_def)








lemma filter_id_replace:
  assumes "distinct (map id_pk s)" and "d \<in> set s" and "id_pk d' = id_pk d"
  shows "filter_id (id_pk d) (map (\<lambda>r. if id_pk r = id_pk d then d' else r) s) = [d']"
  using assms
proof (induction s)
  case Nil
  then show ?case by simp
next
  case (Cons x s)
  show ?case
  proof (cases "x = d")
    case True
    with Cons.prems have "id_pk d \<notin> id_pk ` set s" by simp
    then have "\<forall>r\<in>set s. id_pk r \<noteq> id_pk d" by (auto simp: image_iff)
    then have "filter (\<lambda>r. id_pk r = id_pk d) (map (\<lambda>r. if id_pk r = id_pk d then d' else r) s) = []"
      by (auto simp: filter_empty_conv)
    with True Cons.prems(3) show ?thesis by (simp add: filter_id_def)
  next
    case False
    with Cons.prems have "d \<in> set s" and "distinct (map id_pk s)" and "id_pk x \<noteq> id_pk d"
      by (auto simp: image_iff)
    with Cons.IH Cons.prems(3) show ?thesis by (simp add: filter_id_def)
  qed
qed

lemma query_raises: "\<not> fits_int64 drink_id \<Longrightarrow> query_one_or_none drink_id s = None"
  by (simp add: query_one_or_none_def)


lemma query_present:
  "fits_int64 (id_pk d) \<Longrightarrow> distinct (map id_pk s) \<Longrightarrow> d \<in> set s \<Longrightarrow>
     query_one_or_none (id_pk d) s = Some (Some d)"
  by (simp add: query_one_or_none_def filter_id_present)


lemma modify_drink_unbound:
  "\<not> fits_int64 drink_id \<Longrightarrow>
     modify_drink jwt_payload drink_id body s = (Inl (Abort 422 None), s)"
  by (simp add: modify_drink_def query_raises)

lemma modify_drink_found:
  assumes "fits_int64 (id_pk d)" and "distinct (map id_pk s)" and "d \<in> set s"
    and "py_get body ''title'' = Some t" and "py_get body ''recipe'' = Some r"
  shows "modify_drink jwt_payload (id_pk d) body s =
     (let d' = d\<lparr>title := (if truthy t then t else title d),
                 recipe := (if truthy r then json_dumps r else recipe d)\<rparr>
      in case Drink_update d' s of
           None \<Rightarrow> (Inl (Abort 422 None), s)
         | Some s' \<Rightarrow> (Inr (ok_drinks [long d']), s'))"
  using assms
  by (cases "truthy t"; cases "truthy r")
     (simp_all add: modify_drink_def query_present ok_drinks_def Let_def split: option.splits)

lemma Drink_update_rows:
  assumes "distinct (map id_pk s)" and "d \<in> set s" and "id_pk d' = id_pk d"
    and "Drink_update d' s = Some s'"
  shows "filter_id (id_pk d) s' = [d']" and "set s' = insert d' (set s - {d})"
proof -
  from assms(4) have s': "s' = map (\<lambda>r. if id_pk r = id_pk d then d' else r) s"
    by (auto simp: Drink_update_def assms(3) split: if_splits)
  show "filter_id (id_pk d) s' = [d']"
    unfolding s' using assms(1-3) by (rule filter_id_replace)
  have "\<And>r. r \<in> set s \<Longrightarrow> id_pk r = id_pk d \<Longrightarrow> r = d"
    using assms(1,2) by (auto simp: distinct_map inj_on_def)
  then show "set s' = insert d' (set s - {d})"
    unfolding s' using assms(2) by (auto simp: image_iff)
qed


lemma create_drink_accepted:
  assumes "py_get body ''title'' = Some t" and "py_get body ''recipe'' = Some r"
    and "is_str t" and "t \<notin> title ` set s"
  shows "create_drink jwt_payload body s =
     (let d = \<lparr>id_pk = next_id s, title = t, recipe = json_dumps r\<rparr>
      in (Inr (ok_drinks [long d]), s @ [d]))"
  using assms by (simp add: create_drink_def Drink_insert_def ok_drinks_def Let_def)

lemma filter_new_id:
  assumes "id_pk d = next_id s"
  shows "filter (\<lambda>x. id_pk x = id_pk d) (sort_key id_pk (s @ [d])) = [d]"
proof -
  have "\<forall>x\<in>set s. id_pk x \<noteq> next_id s"
    using next_id_fresh by fastforce
  then have "filter (\<lambda>x. id_pk x = id_pk d) s = []"
    using assms by (simp add: filter_empty_conv)
  then have "filter (\<lambda>x. id_pk x = id_pk d) (s @ [d]) = [d]" by simp
  then have "sort_key id_pk (filter (\<lambda>x. id_pk x = id_pk d) (s @ [d])) = [d]"
    by (simp only: sort_key_simps insort_key.simps)
  then show ?thesis by (simp only: filter_sort)
qed

lemma errorhandler_cases:
  assumes "errorhandler code = Some h"
  shows "code = 404 \<and> h = not_found \<or> code = 422 \<and> h = unprocessable
       \<or> code = 405 \<and> h = not_found_405 \<or> code = 500 \<and> h = internal_server_error
       \<or> code = 400 \<and> h = bad_request \<or> code = 401 \<and> h = unauthorized
       \<or> code = 403 \<and> h = forbidden"
  using assms by (auto simp: errorhandler_def split: if_splits)

lemma wf_store_insert:
  assumes "wf_store s" and "Drink_insert t r s = Some (d, s')"
  shows "wf_store s'"
proof -
  from assms(2) have s': "s' = s @ [d]" and str: "is_str t" and new: "t \<notin> title ` set s"
    and d: "d = \<lparr>id_pk = next_id s, title = t, recipe = r\<rparr>"
    by (auto simp: Drink_insert_def Let_def split: if_splits)
  have "id_pk d \<notin> id_pk ` set s"
    using next_id_fresh d by fastforce
  with assms(1) str new d show ?thesis
    by (simp add: wf_store_def s')
qed

lemma map_replace_id:
  assumes "id_pk d' = i"
  shows "map id_pk (map (\<lambda>r. if id_pk r = i then d' else r) s) = map id_pk s"
  using assms by (induction s) auto

lemma distinct_titles_replace:
  assumes "distinct (map title s)"
    and "title d' \<notin> title ` set (filter (\<lambda>r. id_pk r \<noteq> i) s)"
    and "distinct (map id_pk s)"
  shows "distinct (map title (map (\<lambda>r. if id_pk r = i then d' else r) s))"
  using assms
proof (induction s)
  case Nil
  then show ?case by simp
next
  case (Cons x s)
  show ?case
  proof (cases "id_pk x = i")
    case True
    with Cons.prems(3) have no: "\<forall>r\<in>set s. id_pk r \<noteq> i" by (auto simp: image_iff)
    then have same: "map (\<lambda>r. if id_pk r = i then d' else r) s = s"
      by (simp add: map_idI)
    from no have "filter (\<lambda>r. id_pk r \<noteq> i) s = s" by simp
    with Cons.prems(2) True have "title d' \<notin> title ` set s" by simp
    with Cons.prems(1) True same show ?thesis by simp
  next
    case False
    with Cons.prems have ih: "distinct (map title (map (\<lambda>r. if id_pk r = i then d' else r) s))"
      by (intro Cons.IH) auto
    have nx: "title x \<notin> set (map title (map (\<lambda>r. if id_pk r = i then d' else r) s))"
    proof
      assume "title x \<in> set (map title (map (\<lambda>r. if id_pk r = i then d' else r) s))"
      then obtain r where r: "r \<in> set s"
        and e: "title x = title (if id_pk r = i then d' else r)" by auto
      show False
      proof (cases "id_pk r = i")
        case True
        with e have "title d' = title x" by simp
        with Cons.prems(2) False show False by (auto simp: image_iff)
      next
        case False
        with e r Cons.prems(1) show False by (auto simp: image_iff)
      qed
    qed
    with ih show ?thesis
      by (simp only: list.map False if_False distinct.simps simp_thms)
  qed
qed

lemma wf_store_update:
  assumes "wf_store s" and "Drink_update d' s = Some s'"
  shows "wf_store s'"
proof -
  from assms(2) have s': "s' = map (\<lambda>r. if id_pk r = id_pk d' then d' else r) s"
    and str: "is_str (title d')"
    and new: "title d' \<notin> title ` set (filter (\<lambda>r. id_pk r \<noteq> id_pk d') s)"
    by (auto simp: Drink_update_def split: if_splits)
  from assms(1) have ids: "distinct (map id_pk s)" and titles: "distinct (map title s)"
    and strs: "list_all (\<lambda>d. is_str (title d)) s"
    by (simp_all add: wf_store_def)
  have "distinct (map id_pk s')"
    unfolding s' using ids by (simp only: map_replace_id [OF refl])
  moreover have "distinct (map title s')"
    unfolding s' using titles new ids by (rule distinct_titles_replace)
  moreover have "list_all (\<lambda>d. is_str (title d)) s'"
    unfolding s' using strs str by (auto simp: list_all_iff)
  ultimately show ?thesis by (simp add: wf_store_def)
qed

lemma wf_store_delete:
  assumes "wf_store s"
  shows "wf_store (filter P s)"
  using assms by (auto simp: wf_store_def distinct_map_filter list_all_iff)

text \<open>Every handler keeps the constraints of the table.\<close>

lemma route_preserves_wf_store:
  assumes "wf_store s"
  shows "wf_store (snd (route rq s))"
proof (cases rq)
  case GET_drinks
  with assms show ?thesis by simp
next
  case (GET_drinks_detail p)
  with assms show ?thesis by simp
next
  case (POST_drinks p body)
  with assms show ?thesis
    by (auto simp: create_drink_def Let_def split: option.splits dest: wf_store_insert)
next
  case (PATCH_drinks p i body)
  with assms show ?thesis
    by (auto simp: modify_drink_def Let_def split: option.splits dest: wf_store_update)
next
  case (DELETE_drinks p i)
  with assms show ?thesis
    by (auto simp: delete_drink_def Drink_delete_def wf_store_delete split: option.splits)
qed


section \<open>The listing routes\<close>

text \<open>
  Claim C2. On a table without rows, \<^verbatim>\<open>GET /drinks\<close> and \<^verbatim>\<open>GET /drinks-detail\<close> both answer
  with status 404 and the error envelope. Whatever the table holds, neither handler
  returns a success body whose \<^verbatim>\<open>drinks\<close> array is empty.
\<close>

theorem C2_empty_store_not_found:
  "respond (retrieve_drinks []) =
     Some \<lparr>status_code = 404, content = envelope 404 ''resource not found''\<rparr>
   \<and> respond (get_drinks_detail jwt_payload []) =
     Some \<lparr>status_code = 404, content = envelope 404 ''resource not found''\<rparr>
   \<and> \<not> (\<exists>b. retrieve_drinks s = Inr b \<and> drinks_of b = [])
   \<and> \<not> (\<exists>b. get_drinks_detail jwt_payload s = Inr b \<and> drinks_of b = [])"
proof -
  have "retrieve_drinks [] = Inl (Abort 404 None)"
    by (simp add: retrieve_drinks_def order_by_id_all_def)
  moreover have "get_drinks_detail jwt_payload [] = Inl (Abort 404 None)"
    by (simp add: get_drinks_detail_eq)
  moreover have "\<not> (\<exists>b. retrieve_drinks s = Inr b \<and> drinks_of b = [])"
  proof
    assume "\<exists>b. retrieve_drinks s = Inr b \<and> drinks_of b = []"
    then obtain b where b: "retrieve_drinks s = Inr b" and e: "drinks_of b = []" by blast
    from retrieve_drinks_Inr [OF b] obtain ds
      where "s \<noteq> []" and "b = ok_drinks ds" and m: "map Some ds = map short (sort_key id_pk s)"
      by blast
    with e have "ds = []" by simp
    with m have "sort_key id_pk s = []" by simp
    then have "length (sort_key id_pk s) = 0" by simp
    with \<open>s \<noteq> []\<close> show False by simp
  qed
  moreover have "\<not> (\<exists>b. get_drinks_detail jwt_payload s = Inr b \<and> drinks_of b = [])"
  proof
    assume "\<exists>b. get_drinks_detail jwt_payload s = Inr b \<and> drinks_of b = []"
    then obtain b where b: "get_drinks_detail jwt_payload s = Inr b" and e: "drinks_of b = []"
      by blast
    from b have "s \<noteq> []" and "b = ok_drinks (map long (sort_key id_pk s))"
      by (auto simp: get_drinks_detail_eq split: if_splits)
    with e have "sort_key id_pk s = []" by simp
    then have "length (sort_key id_pk s) = 0" by simp
    with \<open>s \<noteq> []\<close> show False by simp
  qed
  ultimately show ?thesis by (simp add: respond_404 del: respond.simps)
qed

theorem C2_empty_store_not_found_witness:
  "status_code (the (respond (retrieve_drinks []))) = 404
   \<and> status_code (the (respond (get_drinks_detail JNull []))) = 404
   \<and> retrieve_drinks [water] \<noteq> Inr (ok_drinks [])"
  using C2_empty_store_not_found [of JNull "[water]"] by auto

section \<open>Requests for an id that is not in the table\<close>




section \<open>Deleting a drink\<close>



section \<open>Order and completeness of the listings\<close>




section \<open>Partial update\<close>

text \<open>
  Claim C4. For a drink of the table, after a \<^verbatim>\<open>PATCH\<close> whose body holds only \<^verbatim>\<open>title\<close>
  the row of that id still has the recipe it had, and after a \<^verbatim>\<open>PATCH\<close> whose body holds
  only \<^verbatim>\<open>recipe\<close> the row of that id still has the title it had, whether the update was
  accepted or not.
\<close>

theorem C4_patch_leaves_other_field:
  assumes "distinct (map id_pk s)" and "d \<in> set s"
  shows "(\<exists>d'. filter_id (id_pk d)
                 (snd (modify_drink jwt_payload (id_pk d) (JObj [(''title'', t)]) s)) = [d']
              \<and> recipe d' = recipe d)
       \<and> (\<exists>d'. filter_id (id_pk d)
                 (snd (modify_drink jwt_payload (id_pk d) (JObj [(''recipe'', r)]) s)) = [d']
              \<and> title d' = title d)"
proof (cases "fits_int64 (id_pk d)")
  case False
  then have "modify_drink jwt_payload (id_pk d) b s = (Inl (Abort 422 None), s)" for b
    by (rule modify_drink_unbound)
  with assms show ?thesis by (simp add: filter_id_present)
next
  case True
  show ?thesis
  proof
    let ?d' = "d\<lparr>title := (if truthy t then t else title d)\<rparr>"
    have m: "modify_drink jwt_payload (id_pk d) (JObj [(''title'', t)]) s =
        (case Drink_update ?d' s of
           None \<Rightarrow> (Inl (Abort 422 None), s)
         | Some s' \<Rightarrow> (Inr (ok_drinks [long ?d']), s'))"
      using modify_drink_found [OF True assms, of "JObj [(''title'', t)]" t JNull jwt_payload]
      by (cases "truthy t") (simp_all add: Let_def cong: option.case_cong)
    show "\<exists>d'. filter_id (id_pk d)
                 (snd (modify_drink jwt_payload (id_pk d) (JObj [(''title'', t)]) s)) = [d']
              \<and> recipe d' = recipe d"
    proof (cases "Drink_update ?d' s")
      case None
      with m assms show ?thesis by (simp add: filter_id_present)
    next
      case (Some s')
      have "filter_id (id_pk d) s' = [?d']"
        using assms _ Some by (rule Drink_update_rows) simp
      with m Some show ?thesis by simp
    qed
  next
    let ?d' = "d\<lparr>recipe := (if truthy r then json_dumps r else recipe d)\<rparr>"
    have m: "modify_drink jwt_payload (id_pk d) (JObj [(''recipe'', r)]) s =
        (case Drink_update ?d' s of
           None \<Rightarrow> (Inl (Abort 422 None), s)
         | Some s' \<Rightarrow> (Inr (ok_drinks [long ?d']), s'))"
      using modify_drink_found [OF True assms, of "JObj [(''recipe'', r)]" JNull r jwt_payload]
      by (cases "truthy r") (simp_all add: Let_def cong: option.case_cong)
    show "\<exists>d'. filter_id (id_pk d)
                 (snd (modify_drink jwt_payload (id_pk d) (JObj [(''recipe'', r)]) s)) = [d']
              \<and> title d' = title d"
    proof (cases "Drink_update ?d' s")
      case None
      with m assms show ?thesis by (simp add: filter_id_present)
    next
      case (Some s')
      have "filter_id (id_pk d) s' = [?d']"
        using assms _ Some by (rule Drink_update_rows) simp
      with m Some show ?thesis by simp
    qed
  qed
qed

theorem C4_patch_leaves_other_field_witness:
  "(\<exists>d'. filter_id 1 (snd (modify_drink JNull 1 (JObj [(''title'', JStr ''Tea'')])
                                [water, mocha])) = [d']
         \<and> recipe d' = Dumps water_recipe)
   \<and> (\<exists>d'. filter_id 1 (snd (modify_drink JNull 1 (JObj [(''recipe'', JArr [])])
                                [water, mocha])) = [d']
         \<and> title d' = JStr ''Water'')"
  using C4_patch_leaves_other_field [of "[water, mocha]" water JNull "JStr ''Tea''" "JArr []"]
  by (simp add: water_def mocha_def)




section \<open>Creating a drink\<close>

text \<open>
  Claim C8. A \<^verbatim>\<open>POST /drinks\<close> whose body is an object with a string title that no row has
  creates one row; the recipe of the record it returns is the recipe of the body, and in
  the \<^verbatim>\<open>GET /drinks-detail\<close> that follows, the entries with the id of the new record are
  that record alone, recipe included.
\<close>

theorem C8_recipe_round_trip:
  assumes "py_get body ''title'' = Some (JStr t)" and "JStr t \<notin> title ` set s"
    and "py_get body ''recipe'' = Some r"
  shows "\<exists>new s' b'. create_drink jwt_payload body s = (Inr (ok_drinks [new]), s')
           \<and> recipe_of new = r
           \<and> get_drinks_detail jwt_payload' s' = Inr b'
           \<and> filter (\<lambda>e. id_of e = id_of new) (drinks_of b') = [new]"
proof -
  define d where "d = \<lparr>id_pk = next_id s, title = JStr t, recipe = json_dumps r\<rparr>"
  have c: "create_drink jwt_payload body s = (Inr (ok_drinks [long d]), s @ [d])"
    using create_drink_accepted [OF assms(1,3) _ assms(2), of jwt_payload]
    by (simp add: d_def Let_def)
  have rt: "recipe_of (long d) = r"
    by (simp add: d_def json_dumps_def)
  have g: "get_drinks_detail jwt_payload' (s @ [d]) =
      Inr (ok_drinks (map long (sort_key id_pk (s @ [d]))))"
    by (simp add: get_drinks_detail_eq)
  have "id_pk d = next_id s" by (simp add: d_def)
  then have one: "filter (\<lambda>x. id_pk x = id_pk d) (sort_key id_pk (s @ [d])) = [d]"
    by (rule filter_new_id)
  have "filter (\<lambda>e. id_of e = id_of (long d)) (map long (sort_key id_pk (s @ [d]))) =
      map long (filter (\<lambda>x. id_pk x = id_pk d) (sort_key id_pk (s @ [d])))"
    by (simp add: filter_map comp_def)
  with one have f: "filter (\<lambda>e. id_of e = id_of (long d))
      (drinks_of (ok_drinks (map long (sort_key id_pk (s @ [d]))))) = [long d]"
    by simp
  show ?thesis
    by (rule exI [of _ "long d"], rule exI [of _ "s @ [d]"],
        rule exI [of _ "ok_drinks (map long (sort_key id_pk (s @ [d])))"])
       (simp only: c rt g f simp_thms)
qed

theorem C8_recipe_round_trip_witness:
  "\<exists>new s' b'. create_drink JNull water_body [mocha] = (Inr (ok_drinks [new]), s')
       \<and> recipe_of new = water_recipe
       \<and> get_drinks_detail JNull s' = Inr b'
       \<and> filter (\<lambda>e. id_of e = id_of new) (drinks_of b') = [new]"
proof -
  have t: "py_get water_body ''title'' = Some (JStr ''Water'')"
    and r: "py_get water_body ''recipe'' = Some water_recipe"
    by (simp_all add: water_body_def)
  have u: "JStr ''Water'' \<notin> title ` set [mocha]"
    by (simp add: mocha_def)
  from C8_recipe_round_trip [OF t u r, of JNull JNull] show ?thesis .
qed

section \<open>The error responses\<close>

text \<open>
  Claim C1 at an \<^verbatim>\<open>AuthError\<close>. \<open>handle_auth_error\<close> answers with the error's own \<^verbatim>\<open>error\<close>
  value as the body: for an error carrying a code and a description, the body is that pair
  and not an envelope with \<^verbatim>\<open>success\<close>, \<^verbatim>\<open>error\<close> and \<^verbatim>\<open>message\<close>. The handler of the
  status 401 turns the same pair into the envelope whose message is
  \<^verbatim>\<open>"<code> : <description>"\<close>.
\<close>

theorem C1_auth_error_not_enveloped:
  "handle_failure (AuthError (JObj [(''code'', JStr ''invalid_header''),
                                    (''description'', JStr ''Authorization malformed.'')]) 401) =
     Some \<lparr>status_code = 401,
           content = JObj [(''code'', JStr ''invalid_header''),
                           (''description'', JStr ''Authorization malformed.'')]\<rparr>
   \<and> (\<forall>message. JObj [(''code'', JStr ''invalid_header''),
                      (''description'', JStr ''Authorization malformed.'')]
         \<noteq> envelope 401 message)
   \<and> handle_failure (Abort 401 (Some (JObj [(''code'', JStr ''invalid_header''),
                                    (''description'', JStr ''Authorization malformed.'')]))) =
     Some \<lparr>status_code = 401,
           content = envelope 401 ''invalid_header : Authorization malformed.''\<rparr>"
  by (simp add: handle_auth_error_def envelope_def errorhandler_def unauthorized_def)

text \<open>
  Claim C5 at a body that is not an object. \<open>create_drink\<close> calls \<^verbatim>\<open>body.get\<close> before its
  \<^verbatim>\<open>try\<close>: for the JSON body \<^verbatim>\<open>null\<close> or \<^verbatim>\<open>[]\<close> the exception leaves the handler and the
  response is 500, not 422, and nothing is stored. \<open>modify_drink\<close> reads the body inside
  its \<^verbatim>\<open>try\<close> and answers the same body with 422.
\<close>

theorem C5_body_read_outside_try:
  "create_drink jwt_payload JNull s = (Inl Unhandled, s)
   \<and> create_drink jwt_payload (JArr []) s = (Inl Unhandled, s)
   \<and> respond (Inl Unhandled) =
       Some \<lparr>status_code = 500, content = envelope 500 ''Internal server error''\<rparr>
   \<and> modify_drink jwt_payload 1 JNull [water] = (Inl (Abort 422 None), [water])"
  by (simp add: create_drink_def internal_server_error_def modify_drink_def
      query_one_or_none_def fits_int64_def filter_id_def water_def)

section \<open>Further properties of the handlers\<close>

text \<open>
  Every handler registered for a status code returns that status and the envelope
  \<^verbatim>\<open>{success: false, error: <code>, message: <string>}\<close>, whatever the description of
  the error is.
\<close>

theorem status_handlers_return_envelope:
  assumes "errorhandler code = Some h"
  shows "\<exists>message. h description = \<lparr>status_code = code, content = envelope code message\<rparr>"
proof -
  from errorhandler_cases [OF assms]
  consider "code = 404" "h = not_found" | "code = 422" "h = unprocessable"
    | "code = 405" "h = not_found_405" | "code = 500" "h = internal_server_error"
    | "code = 400" "h = bad_request" | "code = 401" "h = unauthorized"
    | "code = 403" "h = forbidden"
    by blast
  then show ?thesis
  proof cases
    case 1
    then show ?thesis by (simp add: not_found_def) blast
  next
    case 2
    then show ?thesis by (simp add: unprocessable_def) blast
  next
    case 3
    then show ?thesis by (simp add: not_found_405_def) blast
  next
    case 4
    then show ?thesis by (simp add: internal_server_error_def) blast
  next
    case 5
    then show ?thesis by (cases "code_description description") (auto simp: bad_request_def)
  next
    case 6
    then show ?thesis by (cases "code_description description") (auto simp: unauthorized_def)
  next
    case 7
    then show ?thesis by (cases "code_description description") (auto simp: forbidden_def)
  qed
qed

theorem status_handlers_return_envelope_witness:
  "\<exists>message. not_found None = \<lparr>status_code = 404, content = envelope 404 message\<rparr>"
proof -
  have "errorhandler 404 = Some not_found" by (simp add: errorhandler_def)
  from status_handlers_return_envelope [OF this, of None] show ?thesis .
qed

text \<open>
  When the description of the error is a dict with a \<^verbatim>\<open>code\<close> and a \<^verbatim>\<open>description\<close>, the
  handlers of 400, 401 and 403 build the message \<^verbatim>\<open>"<code> : <description>"\<close> from it; the
  handlers of 404 and 422 keep their fixed message.
\<close>

theorem structured_description_message:
  assumes "code_description description = Some (c, d)"
  shows "bad_request description =
           \<lparr>status_code = 400, content = envelope 400 (py_str c @ '' : '' @ py_str d)\<rparr>
       \<and> unauthorized description =
           \<lparr>status_code = 401, content = envelope 401 (py_str c @ '' : '' @ py_str d)\<rparr>
       \<and> forbidden description =
           \<lparr>status_code = 403, content = envelope 403 (py_str c @ '' : '' @ py_str d)\<rparr>
       \<and> not_found description =
           \<lparr>status_code = 404, content = envelope 404 ''resource not found''\<rparr>
       \<and> unprocessable description =
           \<lparr>status_code = 422, content = envelope 422 ''unprocessable''\<rparr>"
  using assms
  by (simp add: bad_request_def unauthorized_def forbidden_def not_found_def unprocessable_def)

theorem structured_description_message_witness:
  "forbidden (Some (JObj [(''code'', JStr ''unauthorized''),
                          (''description'', JStr ''Permission not found.'')])) =
     \<lparr>status_code = 403, content = envelope 403 ''unauthorized : Permission not found.''\<rparr>"
proof -
  have "code_description (Some (JObj [(''code'', JStr ''unauthorized''),
                          (''description'', JStr ''Permission not found.'')])) =
      Some (JStr ''unauthorized'', JStr ''Permission not found.'')"
    by simp
  from structured_description_message [OF this] show ?thesis by simp
qed

text \<open>
  When the body of \<^verbatim>\<open>POST /drinks\<close> is an object, the handler either aborts with 422 and
  leaves the table as it was, or appends one row with a new id, the title and the
  serialized recipe of the body, and returns it in long form as the only element of
  \<^verbatim>\<open>drinks\<close>.
\<close>

theorem create_drink_object_body:
  assumes "py_get body ''title'' = Some t" and "py_get body ''recipe'' = Some r"
  shows "create_drink jwt_payload body s = (Inl (Abort 422 None), s)
       \<or> (\<exists>d. create_drink jwt_payload body s = (Inr (ok_drinks [long d]), s @ [d])
              \<and> title d = t \<and> recipe d = json_dumps r \<and> id_pk d \<notin> id_pk ` set s)"
proof (cases "Drink_insert t (json_dumps r) s")
  case None
  with assms show ?thesis by (simp add: create_drink_def)
next
  case (Some p)
  define d where "d = \<lparr>id_pk = next_id s, title = t, recipe = json_dumps r\<rparr>"
  from Some have p: "p = (d, s @ [d])"
    by (auto simp: Drink_insert_def Let_def d_def split: if_splits)
  have "id_pk d \<notin> id_pk ` set s"
    using next_id_fresh [of _ s] by (fastforce simp: d_def)
  moreover have "create_drink jwt_payload body s = (Inr (ok_drinks [long d]), s @ [d])"
    using assms Some p by (simp add: create_drink_def ok_drinks_def)
  moreover have "title d = t" and "recipe d = json_dumps r"
    by (simp_all add: d_def)
  ultimately show ?thesis by blast
qed

theorem create_drink_object_body_witness:
  "create_drink JNull water_body [] = (Inr (ok_drinks [long water]), [water])
   \<and> long water = JObj [(''id'', JInt 1), (''title'', JStr ''Water''), (''recipe'', water_recipe)]
   \<and> create_drink JNull water_body [water] = (Inl (Abort 422 None), [water])"
proof -
  have t: "py_get water_body ''title'' = Some (JStr ''Water'')"
    and r: "py_get water_body ''recipe'' = Some water_recipe"
    by (simp_all add: water_body_def)
  have n: "next_id [] = 1" by (simp add: next_id_def)
  have "Drink_insert (JStr ''Water'') (json_dumps water_recipe) [water] = None"
    by (simp add: Drink_insert_def water_def)
  with t r have "create_drink JNull water_body [water] \<noteq>
      (Inr (ok_drinks [long d]), [water] @ [d])" for d
    by (simp add: create_drink_def)
  with create_drink_object_body [OF t r, of JNull "[water]"]
  have "create_drink JNull water_body [water] = (Inl (Abort 422 None), [water])" by blast
  moreover have "create_drink JNull water_body [] = (Inr (ok_drinks [long water]), [water])"
    using t r n
    by (simp add: create_drink_def Drink_insert_def ok_drinks_def json_dumps_def water_def
        Let_def)
  moreover have "long water =
      JObj [(''id'', JInt 1), (''title'', JStr ''Water''), (''recipe'', water_recipe)]"
    by (simp add: long_def water_def)
  ultimately show ?thesis by simp
qed

end
